theory Spec2Isabelle
  imports Main "HOL-Library.Sublist"
begin

section \<open>Exceptions and results\<close>

text \<open>
  The only exception the morphology module can raise is the \<^verbatim>\<open>KeyError\<close> of a
  dictionary subscript; Python attaches the offending key to it. The two subscripts of
  \<^verbatim>\<open>morph\<close> use keys of different shapes: a property name (a string) and a tuple of
  property values. \<^verbatim>\<open>TypeError\<close> is what the runtime raises when an abstract class is
  instantiated and \<^verbatim>\<open>ValueError\<close> is what \<^verbatim>\<open>float\<close> raises on text that is not a number.
\<close>

datatype exn_class = KeyError | TypeError | ValueError

datatype exn_arg = StrArg string | TupleArg "string list"

datatype error = Raise exn_class exn_arg

fun exn_class_of :: "error \<Rightarrow> exn_class" where
  "exn_class_of (Raise c a) = c"

text \<open>Python's class hierarchy: \<^verbatim>\<open>KeyError\<close> derives from \<^verbatim>\<open>LookupError\<close>; the others do not.\<close>

fun is_LookupError :: "exn_class \<Rightarrow> bool" where
  "is_LookupError KeyError = True"
| "is_LookupError TypeError = False"
| "is_LookupError ValueError = False"

text \<open>The class of the exception a call ended with, if it ended with one.\<close>

fun raised_class :: "error + 'a \<Rightarrow> exn_class option" where
  "raised_class (Inl e) = Some (exn_class_of e)"
| "raised_class (Inr r) = None"

text \<open>
  A call whose argument is itself a call: an exception of the inner call leaves the
  whole expression, otherwise the outer call receives the inner result.
\<close>

definition then_call :: "error + 'a \<Rightarrow> ('a \<Rightarrow> error + 'b) \<Rightarrow> error + 'b" where
  "then_call r f = (case r of Inl e \<Rightarrow> Inl e | Inr x \<Rightarrow> f x)"

section \<open>morphology.py\<close>

type_synonym properties = "string \<rightharpoonup> string"

type_synonym affix_map = "string list \<rightharpoonup> string"

text \<open>
  \<^verbatim>\<open>properties[p]\<close>: a dictionary subscript, raising \<^verbatim>\<open>KeyError(p)\<close> on a missing key.
\<close>

definition getitem_properties :: "properties \<Rightarrow> string \<Rightarrow> error + string" where
  "getitem_properties properties p =
     (case properties p of
        None \<Rightarrow> Inl (Raise KeyError (StrArg p))
      | Some v \<Rightarrow> Inr v)"

text \<open>
  \<^verbatim>\<open>affix_map[value]\<close>: the subscript of the rule table, raising \<^verbatim>\<open>KeyError(value)\<close>.
\<close>

definition getitem_map :: "affix_map \<Rightarrow> string list \<Rightarrow> error + string" where
  "getitem_map m val =
     (case m val of
        None \<Rightarrow> Inl (Raise KeyError (TupleArg val))
      | Some affix \<Rightarrow> Inr affix)"

text \<open>
  \<^verbatim>\<open>tuple([properties[p] for p in self.property_names])\<close>: the comprehension reads the
  names from left to right and stops at the first subscript that raises.
\<close>

fun project :: "string list \<Rightarrow> properties \<Rightarrow> error + string list" where
  "project [] properties = Inr []"
| "project (p # ps) properties =
     (case getitem_properties properties p of
        Inl e \<Rightarrow> Inl e
      | Inr v \<Rightarrow>
          (case project ps properties of
             Inl e \<Rightarrow> Inl e
           | Inr vs \<Rightarrow> Inr (v # vs)))"

subsection \<open>Morpher\<close>

text \<open>
  The body of \<^verbatim>\<open>Morpher.morph\<close> is a docstring and nothing else, so the call returns
  \<^verbatim>\<open>None\<close>. The values a \<^verbatim>\<open>morph\<close> method of this module can return are therefore
  \<^verbatim>\<open>None\<close> or a string.
\<close>

datatype pyvalue = PyNone | PyStr string

definition Morpher_morph :: "string \<Rightarrow> properties \<Rightarrow> pyvalue" where
  "Morpher_morph word properties = PyNone"

text \<open>
  A class statement, as far as instantiation is concerned: the name and, for each method
  of the body, whether it carries the \<^verbatim>\<open>@abstractmethod\<close> decorator. A class deriving from
  \<^verbatim>\<open>ABC\<close> refuses to be instantiated, with a \<^verbatim>\<open>TypeError\<close>, exactly when its set of
  abstract methods is not empty.
\<close>

record class_decl =
  decl_name :: string
  decl_methods :: "(string \<times> bool) list"

definition abstractmethods :: "class_decl \<Rightarrow> string list" where
  "abstractmethods d = map fst (filter snd (decl_methods d))"

definition instantiate :: "class_decl \<Rightarrow> error + string" where
  "instantiate d =
     (if abstractmethods d = [] then Inr (decl_name d)
      else Inl (Raise TypeError (TupleArg (abstractmethods d))))"

definition Morpher_decl :: class_decl where
  "Morpher_decl = \<lparr>decl_name = ''Morpher'', decl_methods = [(''morph'', False)]\<rparr>"

subsection \<open>SuffixMorpher and PrefixMorpher\<close>

record SuffixMorpher =
  property_names :: "string list"
  suffix_map :: affix_map

definition SuffixMorpher_morph :: "SuffixMorpher \<Rightarrow> string \<Rightarrow> properties \<Rightarrow> error + string" where
  "SuffixMorpher_morph self word properties =
     (case project (SuffixMorpher.property_names self) properties of
        Inl e \<Rightarrow> Inl e
      | Inr val \<Rightarrow>
          (case getitem_map (suffix_map self) val of
             Inl e \<Rightarrow> Inl e
           | Inr suffix' \<Rightarrow> Inr (word @ suffix')))"

record PrefixMorpher =
  property_names :: "string list"
  prefix_map :: affix_map

definition PrefixMorpher_morph :: "PrefixMorpher \<Rightarrow> string \<Rightarrow> properties \<Rightarrow> error + string" where
  "PrefixMorpher_morph self word properties =
     (case project (PrefixMorpher.property_names self) properties of
        Inl e \<Rightarrow> Inl e
      | Inr val \<Rightarrow>
          (case getitem_map (prefix_map self) val of
             Inl e \<Rightarrow> Inl e
           | Inr prefix' \<Rightarrow> Inr (prefix' @ word)))"

subsection \<open>The example morphers\<close>

record EnglishVerbMorpher =
  base_morpher :: SuffixMorpher
  negation_morpher :: PrefixMorpher

definition EnglishVerbMorpher_init :: EnglishVerbMorpher where
  "EnglishVerbMorpher_init =
     \<lparr>EnglishVerbMorpher.base_morpher =
        \<lparr>SuffixMorpher.property_names = [''PERSON'', ''COUNT'', ''TENSE'', ''POLARITY''],
         suffix_map = map_of
           [([''1'', ''sng'', ''present'', ''pos''], ''''),
            ([''1'', ''plu'', ''present'', ''pos''], ''''),
            ([''1'', ''sng'', ''perfect'', ''pos''], ''d''),
            ([''1'', ''plu'', ''perfect'', ''pos''], ''d''),
            ([''3'', ''sng'', ''present'', ''pos''], ''s''),
            ([''3'', ''plu'', ''present'', ''pos''], ''''),
            ([''3'', ''sng'', ''perfect'', ''pos''], ''d''),
            ([''3'', ''plu'', ''perfect'', ''pos''], ''d''),
            ([''1'', ''sng'', ''present'', ''neg''], ''''),
            ([''1'', ''plu'', ''present'', ''neg''], ''''),
            ([''1'', ''sng'', ''perfect'', ''neg''], ''''),
            ([''1'', ''plu'', ''perfect'', ''neg''], ''''),
            ([''3'', ''sng'', ''present'', ''neg''], ''''),
            ([''3'', ''plu'', ''present'', ''neg''], ''''),
            ([''3'', ''sng'', ''perfect'', ''neg''], ''''),
            ([''3'', ''plu'', ''perfect'', ''neg''], '''')]\<rparr>,
      negation_morpher =
        \<lparr>PrefixMorpher.property_names = [''PERSON'', ''COUNT'', ''TENSE'', ''POLARITY''],
         prefix_map = map_of
           [([''1'', ''sng'', ''present'', ''pos''], ''''),
            ([''1'', ''plu'', ''present'', ''pos''], ''''),
            ([''1'', ''sng'', ''perfect'', ''pos''], ''''),
            ([''1'', ''plu'', ''perfect'', ''pos''], ''''),
            ([''3'', ''sng'', ''present'', ''pos''], ''''),
            ([''3'', ''plu'', ''present'', ''pos''], ''''),
            ([''3'', ''sng'', ''perfect'', ''pos''], ''''),
            ([''3'', ''plu'', ''perfect'', ''pos''], ''''),
            ([''1'', ''sng'', ''present'', ''neg''], ''do not ''),
            ([''1'', ''plu'', ''present'', ''neg''], ''do not ''),
            ([''1'', ''sng'', ''perfect'', ''neg''], ''did not ''),
            ([''1'', ''plu'', ''perfect'', ''neg''], ''did not ''),
            ([''3'', ''sng'', ''present'', ''neg''], ''does not ''),
            ([''3'', ''plu'', ''present'', ''neg''], ''do not ''),
            ([''3'', ''sng'', ''perfect'', ''neg''], ''did not ''),
            ([''3'', ''plu'', ''perfect'', ''neg''], ''did not '')]\<rparr>\<rparr>"

definition EnglishVerbMorpher_morph ::
  "EnglishVerbMorpher \<Rightarrow> string \<Rightarrow> properties \<Rightarrow> error + string" where
  "EnglishVerbMorpher_morph self word properties =
     (case SuffixMorpher_morph (EnglishVerbMorpher.base_morpher self) word properties of
        Inl e \<Rightarrow> Inl e
      | Inr suffixed \<Rightarrow> PrefixMorpher_morph (negation_morpher self) suffixed properties)"

record EnglishNounMorpher =
  base_morpher :: SuffixMorpher

definition EnglishNounMorpher_init :: EnglishNounMorpher where
  "EnglishNounMorpher_init =
     \<lparr>EnglishNounMorpher.base_morpher =
        \<lparr>SuffixMorpher.property_names = [''COUNT''],
         suffix_map = map_of [([''sng''], ''''), ([''plu''], ''s'')]\<rparr>\<rparr>"

definition EnglishNounMorpher_morph ::
  "EnglishNounMorpher \<Rightarrow> string \<Rightarrow> properties \<Rightarrow> error + string" where
  "EnglishNounMorpher_morph self word properties =
     SuffixMorpher_morph (EnglishNounMorpher.base_morpher self) word properties"

record JapaneseVerbMorpher =
  base_morpher :: SuffixMorpher

definition JapaneseVerbMorpher_init :: JapaneseVerbMorpher where
  "JapaneseVerbMorpher_init =
     \<lparr>JapaneseVerbMorpher.base_morpher =
        \<lparr>SuffixMorpher.property_names = [''PERSON'', ''COUNT'', ''TENSE''],
         suffix_map = map_of
           [([''1'', ''sng'', ''present''], ''masu''),
            ([''1'', ''plu'', ''present''], ''masu''),
            ([''1'', ''sng'', ''perfect''], ''mashita''),
            ([''1'', ''plu'', ''perfect''], ''mashita''),
            ([''3'', ''sng'', ''present''], ''masu''),
            ([''3'', ''plu'', ''present''], ''masu''),
            ([''3'', ''sng'', ''perfect''], ''mashita''),
            ([''3'', ''plu'', ''perfect''], ''mashita'')]\<rparr>\<rparr>"

definition JapaneseVerbMorpher_morph ::
  "JapaneseVerbMorpher \<Rightarrow> string \<Rightarrow> properties \<Rightarrow> error + string" where
  "JapaneseVerbMorpher_morph self word properties =
     SuffixMorpher_morph (JapaneseVerbMorpher.base_morpher self) word properties"

section \<open>corpora.py\<close>

text \<open>
  \<^verbatim>\<open>float\<close> is a builtin of the language, not code of this repository, so it is a
  parameter \<open>pyfloat\<close> of the model: applied to a string it either returns a number
  (\<open>Some\<close>) or raises \<^verbatim>\<open>ValueError\<close> (\<open>None\<close>), and \<^verbatim>\<open>is_number\<close> catches exactly
  that exception.
\<close>

definition is_number :: "(string \<Rightarrow> 'f option) \<Rightarrow> string \<Rightarrow> bool" where
  "is_number pyfloat s = (case pyfloat s of Some x \<Rightarrow> True | None \<Rightarrow> False)"

definition replace_numbers :: "(string \<Rightarrow> 'f option) \<Rightarrow> string \<Rightarrow> string" where
  "replace_numbers pyfloat word = (if is_number pyfloat word then ''*NUM*'' else word)"

text \<open>
  \<^verbatim>\<open>xs[lo:hi]\<close>: a slice never raises; a negative bound counts from the end and both
  bounds are clipped to the list.
\<close>

definition pyslice :: "'a list \<Rightarrow> int \<Rightarrow> int \<Rightarrow> 'a list" where
  "pyslice xs lo hi =
     (let n = int (length xs);
          a = (if lo < 0 then max 0 (n + lo) else min lo n);
          b = (if hi < 0 then max 0 (n + hi) else min hi n)
      in take (nat (b - a)) (drop (nat a) xs))"

text \<open>\<^verbatim>\<open>range(0, stop)\<close>: the integers from 0 up to \<open>stop - 1\<close>, none when \<open>stop \<le> 0\<close>.\<close>

definition pyrange0 :: "int \<Rightarrow> int list" where
  "pyrange0 stop = map int [0..<nat stop]"

text \<open>\<^verbatim>\<open>' '.join(ws)\<close>\<close>

fun join_space :: "string list \<Rightarrow> string" where
  "join_space [] = []"
| "join_space [w] = w"
| "join_space (w # v # ws) = w @ '' '' @ join_space (v # ws)"

text \<open>
  The generator is modelled by the list of the values it yields, in order; the iterable
  \<^verbatim>\<open>lines\<close> is a list and \<^verbatim>\<open>tokenize\<close> is the function passed by the caller.
  \<open>line_ngrams\<close> is the body of the loop over the lines, applied to the tokens of one
  line.
\<close>

definition line_ngrams :: "(string \<Rightarrow> 'f option) \<Rightarrow> int \<Rightarrow> string list \<Rightarrow> string list" where
  "line_ngrams pyfloat ngram_order iwords =
     (let words = map (replace_numbers pyfloat) iwords
      in map (\<lambda>i. join_space (pyslice words i (i + ngram_order)))
           (pyrange0 (int (length words) - ngram_order + 1)))"

definition stream_ngrams ::
  "(string \<Rightarrow> 'f option) \<Rightarrow> 'l list \<Rightarrow> int \<Rightarrow> ('l \<Rightarrow> string list) \<Rightarrow> string list" where
  "stream_ngrams pyfloat lines ngram_order tokenize =
     concat (map (\<lambda>line. line_ngrams pyfloat ngram_order (tokenize line)) lines)"

text \<open>
  The default tokenizer \<^verbatim>\<open>line.split()\<close>: the maximal runs of characters that are not
  white space. The characters of the model are the code points below 256; the white
  space among them is given here, and the further spaces of Unicode lie outside the
  character type.
\<close>

definition is_space :: "char \<Rightarrow> bool" where
  "is_space c = (c \<in> set [CHR 0x09, CHR 0x0A, CHR 0x0B, CHR 0x0C, CHR 0x0D,
                           CHR 0x1C, CHR 0x1D, CHR 0x1E, CHR 0x1F, CHR 0x20,
                           CHR 0x85, CHR 0xA0])"

fun split_from :: "string \<Rightarrow> string \<Rightarrow> string list" where
  "split_from cur [] = (if cur = [] then [] else [cur])"
| "split_from cur (c # cs) =
     (if is_space c then (if cur = [] then split_from [] cs else cur # split_from [] cs)
      else split_from (cur @ [c]) cs)"

definition str_split :: "string \<Rightarrow> string list" where
  "str_split line = split_from [] line"

subsection \<open>What the description of the n-gram stream says\<close>

text \<open>
  The consecutive windows of \<open>n\<close> tokens of a line, from left to right: the window at
  position \<open>i\<close> holds the tokens \<open>i, ..., i + n - 1\<close>.
\<close>

definition ngram_windows :: "nat \<Rightarrow> 'a list \<Rightarrow> 'a list list" where
  "ngram_windows n ws = map (\<lambda>i. take n (drop i ws)) [0..<Suc (length ws) - n]"

section \<open>Projection of a property bundle\<close>

lemma getitem_properties_Some [simp]:
  "properties p = Some v \<Longrightarrow> getitem_properties properties p = Inr v"
  by (simp add: getitem_properties_def)

lemma getitem_properties_None [simp]:
  "properties p = None \<Longrightarrow> getitem_properties properties p = Inl (Raise KeyError (StrArg p))"
  by (simp add: getitem_properties_def)

lemma project_present:
  "(\<forall>n \<in> set ns. p n \<noteq> None) \<Longrightarrow> project ns p = Inr (map (\<lambda>n. the (p n)) ns)"
  by (induction ns) (auto simp: getitem_properties_def split: option.splits sum.splits)

lemma project_InrD:
  "project ns p = Inr vs \<Longrightarrow> (\<forall>n \<in> set ns. p n \<noteq> None) \<and> vs = map (\<lambda>n. the (p n)) ns"
  by (induction ns arbitrary: vs) (auto simp: getitem_properties_def split: option.splits sum.splits)

lemma project_InlD:
  "project ns p = Inl e \<Longrightarrow> \<exists>n \<in> set ns. p n = None \<and> e = Raise KeyError (StrArg n)"
  by (induction ns) (auto simp: getitem_properties_def split: option.splits sum.splits)

lemma project_missing:
  assumes "\<exists>n \<in> set ns. p n = None"
  shows "\<exists>n \<in> set ns. p n = None \<and> project ns p = Inl (Raise KeyError (StrArg n))"
proof (cases "project ns p")
  case (Inl e)
  from project_InlD [OF this] Inl show ?thesis by blast
next
  case (Inr vs)
  from project_InrD [OF this] assms show ?thesis by blast
qed

text \<open>
  The comprehension stops at the first name the bundle does not hold: the names before it
  are present, the names after it are not read.
\<close>

lemma project_first_missing:
  "(\<forall>m \<in> set ns1. p m \<noteq> None) \<Longrightarrow> p n = None
   \<Longrightarrow> project (ns1 @ n # ns2) p = Inl (Raise KeyError (StrArg n))"
  by (induction ns1) (auto simp: getitem_properties_def split: option.splits)

lemma absent_name_has_first:
  assumes "\<exists>n \<in> set ns. p n = None"
  shows "\<exists>ns1 n ns2. ns = ns1 @ n # ns2 \<and> (\<forall>m \<in> set ns1. p m \<noteq> None) \<and> p n = None"
  using split_list_first_prop [OF assms] by blast

lemma project_cong:
  "(\<forall>n \<in> set ns. p n = q n) \<Longrightarrow> project ns p = project ns q"
  by (induction ns) (auto simp: getitem_properties_def split: option.splits sum.splits)

lemma project1:
  "p n1 = Some a \<Longrightarrow> project [n1] p = Inr [a]"
  by simp

lemma project3:
  "p n1 = Some a \<Longrightarrow> p n2 = Some b \<Longrightarrow> p n3 = Some c
   \<Longrightarrow> project [n1, n2, n3] p = Inr [a, b, c]"
  by simp

lemma project4:
  "p n1 = Some a \<Longrightarrow> p n2 = Some b \<Longrightarrow> p n3 = Some c \<Longrightarrow> p n4 = Some d
   \<Longrightarrow> project [n1, n2, n3, n4] p = Inr [a, b, c, d]"
  by simp

section \<open>The two affix morphers\<close>

lemma SuffixMorpher_morph_Inr:
  "project (SuffixMorpher.property_names sm) p = Inr val \<Longrightarrow> suffix_map sm val = Some sfx
   \<Longrightarrow> SuffixMorpher_morph sm w p = Inr (w @ sfx)"
  by (simp add: SuffixMorpher_morph_def getitem_map_def)

lemma PrefixMorpher_morph_Inr:
  "project (PrefixMorpher.property_names pm) p = Inr val \<Longrightarrow> prefix_map pm val = Some pfx
   \<Longrightarrow> PrefixMorpher_morph pm w p = Inr (pfx @ w)"
  by (simp add: PrefixMorpher_morph_def getitem_map_def)

lemma SuffixMorpher_morph_missing:
  assumes "\<exists>n \<in> set (SuffixMorpher.property_names sm). p n = None"
  shows "\<exists>n \<in> set (SuffixMorpher.property_names sm).
           p n = None \<and> SuffixMorpher_morph sm w p = Inl (Raise KeyError (StrArg n))"
  using project_missing [OF assms] by (auto simp: SuffixMorpher_morph_def)

lemma PrefixMorpher_morph_missing:
  assumes "\<exists>n \<in> set (PrefixMorpher.property_names pm). p n = None"
  shows "\<exists>n \<in> set (PrefixMorpher.property_names pm).
           p n = None \<and> PrefixMorpher_morph pm w p = Inl (Raise KeyError (StrArg n))"
  using project_missing [OF assms] by (auto simp: PrefixMorpher_morph_def)

lemma SuffixMorpher_morph_first_missing:
  "SuffixMorpher.property_names sm = ns1 @ n # ns2 \<Longrightarrow> (\<forall>m \<in> set ns1. p m \<noteq> None)
   \<Longrightarrow> p n = None \<Longrightarrow> SuffixMorpher_morph sm w p = Inl (Raise KeyError (StrArg n))"
  by (simp add: SuffixMorpher_morph_def project_first_missing)

lemma PrefixMorpher_morph_first_missing:
  "PrefixMorpher.property_names pm = ns1 @ n # ns2 \<Longrightarrow> (\<forall>m \<in> set ns1. p m \<noteq> None)
   \<Longrightarrow> p n = None \<Longrightarrow> PrefixMorpher_morph pm w p = Inl (Raise KeyError (StrArg n))"
  by (simp add: PrefixMorpher_morph_def project_first_missing)

lemma SuffixMorpher_morph_unknown:
  "project (SuffixMorpher.property_names sm) p = Inr val \<Longrightarrow> suffix_map sm val = None
   \<Longrightarrow> SuffixMorpher_morph sm w p = Inl (Raise KeyError (TupleArg val))"
  by (simp add: SuffixMorpher_morph_def getitem_map_def)

lemma PrefixMorpher_morph_unknown:
  "project (PrefixMorpher.property_names pm) p = Inr val \<Longrightarrow> prefix_map pm val = None
   \<Longrightarrow> PrefixMorpher_morph pm w p = Inl (Raise KeyError (TupleArg val))"
  by (simp add: PrefixMorpher_morph_def getitem_map_def)

lemma SuffixMorpher_morph_cong:
  "(\<forall>n \<in> set (SuffixMorpher.property_names sm). p n = q n)
   \<Longrightarrow> SuffixMorpher_morph sm w p = SuffixMorpher_morph sm w q"
  by (auto simp: SuffixMorpher_morph_def dest!: project_cong)

lemma PrefixMorpher_morph_cong:
  "(\<forall>n \<in> set (PrefixMorpher.property_names pm). p n = q n)
   \<Longrightarrow> PrefixMorpher_morph pm w p = PrefixMorpher_morph pm w q"
  by (auto simp: PrefixMorpher_morph_def dest!: project_cong)

section \<open>The rule tables of the example morphers\<close>

lemma noun_names:
  "SuffixMorpher.property_names (EnglishNounMorpher.base_morpher EnglishNounMorpher_init)
   = [''COUNT'']"
  by (simp add: EnglishNounMorpher_init_def)

lemma noun_table:
  "suffix_map (EnglishNounMorpher.base_morpher EnglishNounMorpher_init) [''sng''] = Some []"
  "suffix_map (EnglishNounMorpher.base_morpher EnglishNounMorpher_init) [''plu''] = Some ''s''"
  by (simp_all add: EnglishNounMorpher_init_def)

lemma japanese_names:
  "SuffixMorpher.property_names (JapaneseVerbMorpher.base_morpher JapaneseVerbMorpher_init)
   = [''PERSON'', ''COUNT'', ''TENSE'']"
  by (simp add: JapaneseVerbMorpher_init_def)

lemma japanese_table:
  "suffix_map (JapaneseVerbMorpher.base_morpher JapaneseVerbMorpher_init) [''1'', ''sng'', ''present''] = Some ''masu''"
  "suffix_map (JapaneseVerbMorpher.base_morpher JapaneseVerbMorpher_init) [''1'', ''plu'', ''present''] = Some ''masu''"
  "suffix_map (JapaneseVerbMorpher.base_morpher JapaneseVerbMorpher_init) [''1'', ''sng'', ''perfect''] = Some ''mashita''"
  "suffix_map (JapaneseVerbMorpher.base_morpher JapaneseVerbMorpher_init) [''1'', ''plu'', ''perfect''] = Some ''mashita''"
  "suffix_map (JapaneseVerbMorpher.base_morpher JapaneseVerbMorpher_init) [''3'', ''sng'', ''present''] = Some ''masu''"
  "suffix_map (JapaneseVerbMorpher.base_morpher JapaneseVerbMorpher_init) [''3'', ''plu'', ''present''] = Some ''masu''"
  "suffix_map (JapaneseVerbMorpher.base_morpher JapaneseVerbMorpher_init) [''3'', ''sng'', ''perfect''] = Some ''mashita''"
  "suffix_map (JapaneseVerbMorpher.base_morpher JapaneseVerbMorpher_init) [''3'', ''plu'', ''perfect''] = Some ''mashita''"
  by (simp_all add: JapaneseVerbMorpher_init_def)

lemma english_verb_names:
  "SuffixMorpher.property_names (EnglishVerbMorpher.base_morpher EnglishVerbMorpher_init)
   = [''PERSON'', ''COUNT'', ''TENSE'', ''POLARITY'']"
  "PrefixMorpher.property_names (negation_morpher EnglishVerbMorpher_init)
   = [''PERSON'', ''COUNT'', ''TENSE'', ''POLARITY'']"
  by (simp_all add: EnglishVerbMorpher_init_def)

lemma english_verb_suffix_table:
  "suffix_map (EnglishVerbMorpher.base_morpher EnglishVerbMorpher_init) [''1'', ''sng'', ''present'', ''pos''] = Some []"
  "suffix_map (EnglishVerbMorpher.base_morpher EnglishVerbMorpher_init) [''1'', ''plu'', ''present'', ''pos''] = Some []"
  "suffix_map (EnglishVerbMorpher.base_morpher EnglishVerbMorpher_init) [''1'', ''sng'', ''perfect'', ''pos''] = Some ''d''"
  "suffix_map (EnglishVerbMorpher.base_morpher EnglishVerbMorpher_init) [''1'', ''plu'', ''perfect'', ''pos''] = Some ''d''"
  "suffix_map (EnglishVerbMorpher.base_morpher EnglishVerbMorpher_init) [''3'', ''sng'', ''present'', ''pos''] = Some ''s''"
  "suffix_map (EnglishVerbMorpher.base_morpher EnglishVerbMorpher_init) [''3'', ''plu'', ''present'', ''pos''] = Some []"
  "suffix_map (EnglishVerbMorpher.base_morpher EnglishVerbMorpher_init) [''3'', ''sng'', ''perfect'', ''pos''] = Some ''d''"
  "suffix_map (EnglishVerbMorpher.base_morpher EnglishVerbMorpher_init) [''3'', ''plu'', ''perfect'', ''pos''] = Some ''d''"
  "suffix_map (EnglishVerbMorpher.base_morpher EnglishVerbMorpher_init) [''1'', ''sng'', ''present'', ''neg''] = Some []"
  "suffix_map (EnglishVerbMorpher.base_morpher EnglishVerbMorpher_init) [''1'', ''plu'', ''present'', ''neg''] = Some []"
  "suffix_map (EnglishVerbMorpher.base_morpher EnglishVerbMorpher_init) [''1'', ''sng'', ''perfect'', ''neg''] = Some []"
  "suffix_map (EnglishVerbMorpher.base_morpher EnglishVerbMorpher_init) [''1'', ''plu'', ''perfect'', ''neg''] = Some []"
  "suffix_map (EnglishVerbMorpher.base_morpher EnglishVerbMorpher_init) [''3'', ''sng'', ''present'', ''neg''] = Some []"
  "suffix_map (EnglishVerbMorpher.base_morpher EnglishVerbMorpher_init) [''3'', ''plu'', ''present'', ''neg''] = Some []"
  "suffix_map (EnglishVerbMorpher.base_morpher EnglishVerbMorpher_init) [''3'', ''sng'', ''perfect'', ''neg''] = Some []"
  "suffix_map (EnglishVerbMorpher.base_morpher EnglishVerbMorpher_init) [''3'', ''plu'', ''perfect'', ''neg''] = Some []"
  by (simp_all add: EnglishVerbMorpher_init_def)

lemma english_verb_prefix_table:
  "prefix_map (negation_morpher EnglishVerbMorpher_init) [''1'', ''sng'', ''present'', ''pos''] = Some []"
  "prefix_map (negation_morpher EnglishVerbMorpher_init) [''1'', ''plu'', ''present'', ''pos''] = Some []"
  "prefix_map (negation_morpher EnglishVerbMorpher_init) [''1'', ''sng'', ''perfect'', ''pos''] = Some []"
  "prefix_map (negation_morpher EnglishVerbMorpher_init) [''1'', ''plu'', ''perfect'', ''pos''] = Some []"
  "prefix_map (negation_morpher EnglishVerbMorpher_init) [''3'', ''sng'', ''present'', ''pos''] = Some []"
  "prefix_map (negation_morpher EnglishVerbMorpher_init) [''3'', ''plu'', ''present'', ''pos''] = Some []"
  "prefix_map (negation_morpher EnglishVerbMorpher_init) [''3'', ''sng'', ''perfect'', ''pos''] = Some []"
  "prefix_map (negation_morpher EnglishVerbMorpher_init) [''3'', ''plu'', ''perfect'', ''pos''] = Some []"
  "prefix_map (negation_morpher EnglishVerbMorpher_init) [''1'', ''sng'', ''present'', ''neg''] = Some ''do not ''"
  "prefix_map (negation_morpher EnglishVerbMorpher_init) [''1'', ''plu'', ''present'', ''neg''] = Some ''do not ''"
  "prefix_map (negation_morpher EnglishVerbMorpher_init) [''1'', ''sng'', ''perfect'', ''neg''] = Some ''did not ''"
  "prefix_map (negation_morpher EnglishVerbMorpher_init) [''1'', ''plu'', ''perfect'', ''neg''] = Some ''did not ''"
  "prefix_map (negation_morpher EnglishVerbMorpher_init) [''3'', ''sng'', ''present'', ''neg''] = Some ''does not ''"
  "prefix_map (negation_morpher EnglishVerbMorpher_init) [''3'', ''plu'', ''present'', ''neg''] = Some ''do not ''"
  "prefix_map (negation_morpher EnglishVerbMorpher_init) [''3'', ''sng'', ''perfect'', ''neg''] = Some ''did not ''"
  "prefix_map (negation_morpher EnglishVerbMorpher_init) [''3'', ''plu'', ''perfect'', ''neg''] = Some ''did not ''"
  by (simp_all add: EnglishVerbMorpher_init_def)

section \<open>The n-gram stream\<close>

lemma take_min_length: "take (min k (length xs)) xs = take k xs"
  by (cases "k \<le> length xs") (simp_all add: min_def)

lemma pyslice_window:
  assumes "0 \<le> n" and "i \<le> length ws"
  shows "pyslice ws (int i) (int i + n) = take (nat n) (drop i ws)"
proof -
  have "nat (min (int i + n) (int (length ws)) - int i) = min (nat n) (length ws - i)"
    using assms by (simp add: min_def) linarith
  then have "pyslice ws (int i) (int i + n) = take (min (nat n) (length (drop i ws))) (drop i ws)"
    using assms by (simp add: pyslice_def Let_def)
  then show ?thesis by (simp only: take_min_length)
qed

lemma pyrange0_windows:
  assumes "0 \<le> n"
  shows "pyrange0 (int w - n + 1) = map int [0..<Suc w - nat n]"
proof -
  from assms have "nat (int w - n + 1) = Suc w - nat n" by linarith
  then show ?thesis by (simp add: pyrange0_def)
qed

lemma line_ngrams_windows:
  assumes "0 \<le> n"
  shows "line_ngrams pf n ws = map join_space (ngram_windows (nat n) (map (replace_numbers pf) ws))"
proof -
  let ?words = "map (replace_numbers pf) ws"
  have "map (\<lambda>i. join_space (pyslice ?words i (i + n))) (map int [0..<Suc (length ?words) - nat n])
      = map (\<lambda>i. join_space (take (nat n) (drop i ?words))) [0..<Suc (length ?words) - nat n]"
    using assms by (auto simp: pyslice_window)
  then show ?thesis
    using assms by (simp add: line_ngrams_def Let_def pyrange0_windows ngram_windows_def comp_def)
qed

lemma length_ngram_windows:
  "length (ngram_windows n ws) = (if n \<le> length ws then length ws - n + 1 else 0)"
  by (auto simp: ngram_windows_def)

lemma nth_ngram_windows:
  "i < length (ngram_windows n ws) \<Longrightarrow> ngram_windows n ws ! i = take n (drop i ws)
     \<and> length (ngram_windows n ws ! i) = n"
  by (auto simp: ngram_windows_def)

section \<open>The claims about the morphers\<close>

text \<open>
  Claim C1. The English verb morpher turns the stem "walk" into "walks" for third person
  singular present positive, into "do not walk" for first person singular present
  negative, into "does not walk" for third person singular present negative and into
  "did not walk" for first person plural perfect negative.
\<close>

theorem english_verb_walk_examples:
  "EnglishVerbMorpher_morph EnglishVerbMorpher_init ''walk''
     [''PERSON'' \<mapsto> ''3'', ''COUNT'' \<mapsto> ''sng'', ''TENSE'' \<mapsto> ''present'', ''POLARITY'' \<mapsto> ''pos'']
   = Inr ''walks''
   \<and> EnglishVerbMorpher_morph EnglishVerbMorpher_init ''walk''
     [''PERSON'' \<mapsto> ''1'', ''COUNT'' \<mapsto> ''sng'', ''TENSE'' \<mapsto> ''present'', ''POLARITY'' \<mapsto> ''neg'']
   = Inr ''do not walk''
   \<and> EnglishVerbMorpher_morph EnglishVerbMorpher_init ''walk''
     [''PERSON'' \<mapsto> ''3'', ''COUNT'' \<mapsto> ''sng'', ''TENSE'' \<mapsto> ''present'', ''POLARITY'' \<mapsto> ''neg'']
   = Inr ''does not walk''
   \<and> EnglishVerbMorpher_morph EnglishVerbMorpher_init ''walk''
     [''PERSON'' \<mapsto> ''1'', ''COUNT'' \<mapsto> ''plu'', ''TENSE'' \<mapsto> ''perfect'', ''POLARITY'' \<mapsto> ''neg'']
   = Inr ''did not walk''"
  by (simp add: EnglishVerbMorpher_morph_def EnglishVerbMorpher_init_def
      SuffixMorpher_morph_def PrefixMorpher_morph_def getitem_map_def)

text \<open>
  Claim C2. For a suffix morpher and for a prefix morpher alike: when a name of the
  morpher's property-name list is absent from the property bundle, or when the projected
  tuple of values has no entry in the rule table, \<open>morph\<close> ends with an exception whose
  class is a \<^verbatim>\<open>LookupError\<close>; in particular it returns no string at all.
\<close>

theorem affix_morph_fails_with_LookupError:
  "((\<exists>n \<in> set (SuffixMorpher.property_names sm). p n = None)
     \<or> (\<exists>val. project (SuffixMorpher.property_names sm) p = Inr val \<and> suffix_map sm val = None)
    \<longrightarrow> (\<exists>e. SuffixMorpher_morph sm stem p = Inl e \<and> is_LookupError (exn_class_of e)))
   \<and> ((\<exists>n \<in> set (PrefixMorpher.property_names pm). p n = None)
     \<or> (\<exists>val. project (PrefixMorpher.property_names pm) p = Inr val \<and> prefix_map pm val = None)
    \<longrightarrow> (\<exists>e. PrefixMorpher_morph pm stem p = Inl e \<and> is_LookupError (exn_class_of e)))"
proof (intro conjI impI)
  assume "(\<exists>n \<in> set (SuffixMorpher.property_names sm). p n = None)
     \<or> (\<exists>val. project (SuffixMorpher.property_names sm) p = Inr val \<and> suffix_map sm val = None)"
  then show "\<exists>e. SuffixMorpher_morph sm stem p = Inl e \<and> is_LookupError (exn_class_of e)"
  proof
    assume "\<exists>n \<in> set (SuffixMorpher.property_names sm). p n = None"
    from SuffixMorpher_morph_missing [OF this, of stem] show ?thesis by auto
  next
    assume "\<exists>val. project (SuffixMorpher.property_names sm) p = Inr val \<and> suffix_map sm val = None"
    then show ?thesis by (auto simp: SuffixMorpher_morph_unknown)
  qed
next
  assume "(\<exists>n \<in> set (PrefixMorpher.property_names pm). p n = None)
     \<or> (\<exists>val. project (PrefixMorpher.property_names pm) p = Inr val \<and> prefix_map pm val = None)"
  then show "\<exists>e. PrefixMorpher_morph pm stem p = Inl e \<and> is_LookupError (exn_class_of e)"
  proof
    assume "\<exists>n \<in> set (PrefixMorpher.property_names pm). p n = None"
    from PrefixMorpher_morph_missing [OF this, of stem] show ?thesis by auto
  next
    assume "\<exists>val. project (PrefixMorpher.property_names pm) p = Inr val \<and> prefix_map pm val = None"
    then show ?thesis by (auto simp: PrefixMorpher_morph_unknown)
  qed
qed

text \<open>
  The noun morpher asked without a \<^verbatim>\<open>COUNT\<close>, and the negation morpher of the English
  verb asked for a second person, which its table does not cover.
\<close>

theorem affix_morph_fails_with_LookupError_witness:
  "(Map.empty :: properties) ''COUNT'' = None
   \<and> (\<exists>e. SuffixMorpher_morph (EnglishNounMorpher.base_morpher EnglishNounMorpher_init)
            ''cat'' Map.empty = Inl e \<and> is_LookupError (exn_class_of e))
   \<and> project (PrefixMorpher.property_names (negation_morpher EnglishVerbMorpher_init))
        [''PERSON'' \<mapsto> ''2'', ''COUNT'' \<mapsto> ''sng'', ''TENSE'' \<mapsto> ''present'', ''POLARITY'' \<mapsto> ''neg'']
      = Inr [''2'', ''sng'', ''present'', ''neg'']
   \<and> prefix_map (negation_morpher EnglishVerbMorpher_init) [''2'', ''sng'', ''present'', ''neg'']
      = None
   \<and> (\<exists>e. PrefixMorpher_morph (negation_morpher EnglishVerbMorpher_init) ''walk''
        [''PERSON'' \<mapsto> ''2'', ''COUNT'' \<mapsto> ''sng'', ''TENSE'' \<mapsto> ''present'', ''POLARITY'' \<mapsto> ''neg'']
        = Inl e \<and> is_LookupError (exn_class_of e))"
proof -
  let ?q = "[''PERSON'' \<mapsto> ''2'', ''COUNT'' \<mapsto> ''sng'', ''TENSE'' \<mapsto> ''present'',
             ''POLARITY'' \<mapsto> ''neg'']"
  have h1: "\<exists>n \<in> set (SuffixMorpher.property_names
      (EnglishNounMorpher.base_morpher EnglishNounMorpher_init)). (Map.empty :: properties) n = None"
    by (simp add: noun_names)
  have h2: "project (PrefixMorpher.property_names (negation_morpher EnglishVerbMorpher_init)) ?q
      = Inr [''2'', ''sng'', ''present'', ''neg'']"
    by (simp add: english_verb_names)
  have h3: "prefix_map (negation_morpher EnglishVerbMorpher_init) [''2'', ''sng'', ''present'', ''neg'']
      = None"
    by (simp add: EnglishVerbMorpher_init_def)
  note t1 = affix_morph_fails_with_LookupError
    [where sm = "EnglishNounMorpher.base_morpher EnglishNounMorpher_init"
       and p = "Map.empty" and stem = "''cat''", THEN conjunct1, THEN mp, OF disjI1, OF h1]
  have h4: "\<exists>val. project (PrefixMorpher.property_names (negation_morpher EnglishVerbMorpher_init)) ?q
      = Inr val \<and> prefix_map (negation_morpher EnglishVerbMorpher_init) val = None"
    using h2 h3 by blast
  note t2 = affix_morph_fails_with_LookupError
    [where pm = "negation_morpher EnglishVerbMorpher_init"
       and p = ?q and stem = "''walk''", THEN conjunct2, THEN mp, OF disjI2, OF h4]
  show ?thesis using t1 t2 h2 h3 by simp
qed

text \<open>
  Claim C3. For every English verb morpher, stem and property bundle, \<open>morph\<close> is the
  suffix morpher applied to the stem followed by the negation prefix morpher applied to
  the suffixed result, both with the property bundle the caller passed:
  \<^verbatim>\<open>morph(stem, p) == negation_morpher.morph(base_morpher.morph(stem, p), p)\<close>.
\<close>

theorem english_verb_suffix_then_prefix:
  "EnglishVerbMorpher_morph self stem p =
     then_call (SuffixMorpher_morph (EnglishVerbMorpher.base_morpher self) stem p)
       (\<lambda>suffixed. PrefixMorpher_morph (negation_morpher self) suffixed p)"
  by (simp add: EnglishVerbMorpher_morph_def then_call_def)

text \<open>
  Claim C4. When the property bundle holds every name of the morpher's property-name
  list and the rule table covers the projected tuple, a suffix morpher returns a string
  that starts with the stem and is at least as long, and a prefix morpher returns a
  string that ends with the stem.
\<close>

theorem affix_morph_keeps_stem:
  "((\<forall>n \<in> set (SuffixMorpher.property_names sm). p n \<noteq> None)
      \<and> suffix_map sm (map (\<lambda>n. the (p n)) (SuffixMorpher.property_names sm)) \<noteq> None
     \<longrightarrow> (\<exists>r. SuffixMorpher_morph sm stem p = Inr r \<and> prefix stem r \<and> length stem \<le> length r))
   \<and> ((\<forall>n \<in> set (PrefixMorpher.property_names pm). p n \<noteq> None)
      \<and> prefix_map pm (map (\<lambda>n. the (p n)) (PrefixMorpher.property_names pm)) \<noteq> None
     \<longrightarrow> (\<exists>r. PrefixMorpher_morph pm stem p = Inr r \<and> suffix stem r))"
  by (auto simp: SuffixMorpher_morph_def PrefixMorpher_morph_def getitem_map_def
      project_present suffix_def)

text \<open>
  The plural of "cat" starts with "cat"; the negated third person singular of "walk"
  ends with "walk".
\<close>

theorem affix_morph_keeps_stem_witness:
  "[''COUNT'' \<mapsto> ''plu''] ''COUNT'' \<noteq> None
   \<and> suffix_map (EnglishNounMorpher.base_morpher EnglishNounMorpher_init) [''plu''] \<noteq> None
   \<and> SuffixMorpher_morph (EnglishNounMorpher.base_morpher EnglishNounMorpher_init) ''cat''
        [''COUNT'' \<mapsto> ''plu''] = Inr ''cats''
   \<and> prefix ''cat'' ''cats'' \<and> length ''cat'' \<le> length ''cats''
   \<and> prefix_map (negation_morpher EnglishVerbMorpher_init) [''3'', ''sng'', ''present'', ''neg'']
        \<noteq> None
   \<and> PrefixMorpher_morph (negation_morpher EnglishVerbMorpher_init) ''walk''
        [''PERSON'' \<mapsto> ''3'', ''COUNT'' \<mapsto> ''sng'', ''TENSE'' \<mapsto> ''present'', ''POLARITY'' \<mapsto> ''neg'']
        = Inr ''does not walk''
   \<and> suffix ''walk'' ''does not walk''"
proof -
  let ?p = "[''COUNT'' \<mapsto> ''plu'']"
  let ?q = "[''PERSON'' \<mapsto> ''3'', ''COUNT'' \<mapsto> ''sng'', ''TENSE'' \<mapsto> ''present'',
             ''POLARITY'' \<mapsto> ''neg'']"
  have h1: "(\<forall>n \<in> set (SuffixMorpher.property_names
        (EnglishNounMorpher.base_morpher EnglishNounMorpher_init)). ?p n \<noteq> None)
      \<and> suffix_map (EnglishNounMorpher.base_morpher EnglishNounMorpher_init)
          (map (\<lambda>n. the (?p n)) (SuffixMorpher.property_names
            (EnglishNounMorpher.base_morpher EnglishNounMorpher_init))) \<noteq> None"
    by (simp add: noun_names noun_table)
  have h2: "(\<forall>n \<in> set (PrefixMorpher.property_names (negation_morpher EnglishVerbMorpher_init)).
        ?q n \<noteq> None)
      \<and> prefix_map (negation_morpher EnglishVerbMorpher_init)
          (map (\<lambda>n. the (?q n)) (PrefixMorpher.property_names
            (negation_morpher EnglishVerbMorpher_init))) \<noteq> None"
    by (simp add: english_verb_names english_verb_prefix_table)
  note t1 = affix_morph_keeps_stem
    [where sm = "EnglishNounMorpher.base_morpher EnglishNounMorpher_init"
       and p = ?p and stem = "''cat''", THEN conjunct1, THEN mp, OF h1]
  note t2 = affix_morph_keeps_stem
    [where pm = "negation_morpher EnglishVerbMorpher_init"
       and p = ?q and stem = "''walk''", THEN conjunct2, THEN mp, OF h2]
  have e1: "SuffixMorpher_morph (EnglishNounMorpher.base_morpher EnglishNounMorpher_init) ''cat'' ?p
      = Inr ''cats''"
    using SuffixMorpher_morph_Inr [where sm = "EnglishNounMorpher.base_morpher EnglishNounMorpher_init"
        and p = ?p and val = "[''plu'']" and sfx = "''s''" and w = "''cat''"]
    by (simp add: noun_names noun_table)
  have e2: "PrefixMorpher_morph (negation_morpher EnglishVerbMorpher_init) ''walk'' ?q
      = Inr ''does not walk''"
    using PrefixMorpher_morph_Inr [where pm = "negation_morpher EnglishVerbMorpher_init"
        and p = ?q and val = "[''3'', ''sng'', ''present'', ''neg'']" and pfx = "''does not ''"
        and w = "''walk''"]
    by (simp add: english_verb_names english_verb_prefix_table)
  from t1 e1 have "prefix ''cat'' ''cats'' \<and> length ''cat'' \<le> length ''cats''" by simp
  moreover from t2 e2 have "suffix ''walk'' ''does not walk''" by simp
  ultimately show ?thesis
    using e1 e2 by (simp add: noun_table english_verb_prefix_table)
qed

text \<open>
  Claim C5. The English noun morpher returns the bare stem when \<^verbatim>\<open>COUNT\<close> is
  \<^verbatim>\<open>sng\<close> and the stem followed by "s" when it is \<^verbatim>\<open>plu\<close>. The Japanese verb
  morpher returns the stem followed by "masu" when \<^verbatim>\<open>TENSE\<close> is \<^verbatim>\<open>present\<close> and
  followed by "mashita" when it is \<^verbatim>\<open>perfect\<close>, whichever of 1, 3 the \<^verbatim>\<open>PERSON\<close>
  and whichever of \<^verbatim>\<open>sng\<close>, \<^verbatim>\<open>plu\<close> the \<^verbatim>\<open>COUNT\<close>.
\<close>

theorem noun_and_japanese_verb_rules:
  "(p ''COUNT'' = Some ''sng'' \<longrightarrow>
      EnglishNounMorpher_morph EnglishNounMorpher_init stem p = Inr stem)
   \<and> (p ''COUNT'' = Some ''plu'' \<longrightarrow>
      EnglishNounMorpher_morph EnglishNounMorpher_init stem p = Inr (stem @ ''s''))
   \<and> ((p ''PERSON'' = Some ''1'' \<or> p ''PERSON'' = Some ''3'')
      \<and> (p ''COUNT'' = Some ''sng'' \<or> p ''COUNT'' = Some ''plu'')
      \<and> p ''TENSE'' = Some ''present'' \<longrightarrow>
      JapaneseVerbMorpher_morph JapaneseVerbMorpher_init stem p = Inr (stem @ ''masu''))
   \<and> ((p ''PERSON'' = Some ''1'' \<or> p ''PERSON'' = Some ''3'')
      \<and> (p ''COUNT'' = Some ''sng'' \<or> p ''COUNT'' = Some ''plu'')
      \<and> p ''TENSE'' = Some ''perfect'' \<longrightarrow>
      JapaneseVerbMorpher_morph JapaneseVerbMorpher_init stem p = Inr (stem @ ''mashita''))"
proof (intro conjI impI)
  assume "p ''COUNT'' = Some ''sng''"
  then have "project [''COUNT''] p = Inr [''sng'']" by (rule project1)
  then have "SuffixMorpher_morph (EnglishNounMorpher.base_morpher EnglishNounMorpher_init) stem p
      = Inr (stem @ [])"
    by (intro SuffixMorpher_morph_Inr [where val = "[''sng'']"]) (simp_all only: noun_names noun_table)
  then show "EnglishNounMorpher_morph EnglishNounMorpher_init stem p = Inr stem"
    by (simp add: EnglishNounMorpher_morph_def)
next
  assume "p ''COUNT'' = Some ''plu''"
  then have "project [''COUNT''] p = Inr [''plu'']" by (rule project1)
  then have "SuffixMorpher_morph (EnglishNounMorpher.base_morpher EnglishNounMorpher_init) stem p
      = Inr (stem @ ''s'')"
    by (intro SuffixMorpher_morph_Inr [where val = "[''plu'']"]) (simp_all only: noun_names noun_table)
  then show "EnglishNounMorpher_morph EnglishNounMorpher_init stem p = Inr (stem @ ''s'')"
    by (simp add: EnglishNounMorpher_morph_def)
next
  assume h: "(p ''PERSON'' = Some ''1'' \<or> p ''PERSON'' = Some ''3'')
      \<and> (p ''COUNT'' = Some ''sng'' \<or> p ''COUNT'' = Some ''plu'')
      \<and> p ''TENSE'' = Some ''present''"
  then obtain a b where ab: "p ''PERSON'' = Some a" "p ''COUNT'' = Some b"
    and dom: "a = ''1'' \<or> a = ''3''" "b = ''sng'' \<or> b = ''plu''"
    by blast
  from ab h have "project [''PERSON'', ''COUNT'', ''TENSE''] p = Inr [a, b, ''present'']"
    by (intro project3) simp_all
  moreover from dom have "suffix_map (JapaneseVerbMorpher.base_morpher JapaneseVerbMorpher_init)
      [a, b, ''present''] = Some ''masu''"
    by (elim disjE) (simp_all only: japanese_table)
  ultimately have "SuffixMorpher_morph (JapaneseVerbMorpher.base_morpher JapaneseVerbMorpher_init) stem p
      = Inr (stem @ ''masu'')"
    by (intro SuffixMorpher_morph_Inr [where val = "[a, b, ''present'']"]) (simp_all only: japanese_names)
  then show "JapaneseVerbMorpher_morph JapaneseVerbMorpher_init stem p = Inr (stem @ ''masu'')"
    by (simp add: JapaneseVerbMorpher_morph_def)
next
  assume h: "(p ''PERSON'' = Some ''1'' \<or> p ''PERSON'' = Some ''3'')
      \<and> (p ''COUNT'' = Some ''sng'' \<or> p ''COUNT'' = Some ''plu'')
      \<and> p ''TENSE'' = Some ''perfect''"
  then obtain a b where ab: "p ''PERSON'' = Some a" "p ''COUNT'' = Some b"
    and dom: "a = ''1'' \<or> a = ''3''" "b = ''sng'' \<or> b = ''plu''"
    by blast
  from ab h have "project [''PERSON'', ''COUNT'', ''TENSE''] p = Inr [a, b, ''perfect'']"
    by (intro project3) simp_all
  moreover from dom have "suffix_map (JapaneseVerbMorpher.base_morpher JapaneseVerbMorpher_init)
      [a, b, ''perfect''] = Some ''mashita''"
    by (elim disjE) (simp_all only: japanese_table)
  ultimately have "SuffixMorpher_morph (JapaneseVerbMorpher.base_morpher JapaneseVerbMorpher_init) stem p
      = Inr (stem @ ''mashita'')"
    by (intro SuffixMorpher_morph_Inr [where val = "[a, b, ''perfect'']"]) (simp_all only: japanese_names)
  then show "JapaneseVerbMorpher_morph JapaneseVerbMorpher_init stem p = Inr (stem @ ''mashita'')"
    by (simp add: JapaneseVerbMorpher_morph_def)
qed

text \<open>The examples "cat", "cats" and "tabemashita".\<close>

theorem noun_and_japanese_verb_rules_witness:
  "[''COUNT'' \<mapsto> ''sng''] ''COUNT'' = Some ''sng''
   \<and> EnglishNounMorpher_morph EnglishNounMorpher_init ''cat'' [''COUNT'' \<mapsto> ''sng''] = Inr ''cat''
   \<and> [''COUNT'' \<mapsto> ''plu''] ''COUNT'' = Some ''plu''
   \<and> EnglishNounMorpher_morph EnglishNounMorpher_init ''cat'' [''COUNT'' \<mapsto> ''plu''] = Inr ''cats''
   \<and> [''PERSON'' \<mapsto> ''3'', ''COUNT'' \<mapsto> ''sng'', ''TENSE'' \<mapsto> ''perfect''] ''TENSE'' = Some ''perfect''
   \<and> JapaneseVerbMorpher_morph JapaneseVerbMorpher_init ''tabe''
        [''PERSON'' \<mapsto> ''3'', ''COUNT'' \<mapsto> ''sng'', ''TENSE'' \<mapsto> ''perfect''] = Inr ''tabemashita''
   \<and> [''PERSON'' \<mapsto> ''1'', ''COUNT'' \<mapsto> ''plu'', ''TENSE'' \<mapsto> ''present''] ''TENSE'' = Some ''present''
   \<and> JapaneseVerbMorpher_morph JapaneseVerbMorpher_init ''tabe''
        [''PERSON'' \<mapsto> ''1'', ''COUNT'' \<mapsto> ''plu'', ''TENSE'' \<mapsto> ''present''] = Inr ''tabemasu''"
proof -
  note t1 = noun_and_japanese_verb_rules
    [where p = "[''COUNT'' \<mapsto> ''sng'']" and stem = "''cat''", THEN conjunct1, THEN mp]
  note t2 = noun_and_japanese_verb_rules
    [where p = "[''COUNT'' \<mapsto> ''plu'']" and stem = "''cat''",
     THEN conjunct2, THEN conjunct1, THEN mp]
  note t3 = noun_and_japanese_verb_rules
    [where p = "[''PERSON'' \<mapsto> ''1'', ''COUNT'' \<mapsto> ''plu'', ''TENSE'' \<mapsto> ''present'']"
       and stem = "''tabe''", THEN conjunct2, THEN conjunct2, THEN conjunct1, THEN mp]
  note t4 = noun_and_japanese_verb_rules
    [where p = "[''PERSON'' \<mapsto> ''3'', ''COUNT'' \<mapsto> ''sng'', ''TENSE'' \<mapsto> ''perfect'']"
       and stem = "''tabe''", THEN conjunct2, THEN conjunct2, THEN conjunct2, THEN mp]
  have "EnglishNounMorpher_morph EnglishNounMorpher_init ''cat'' [''COUNT'' \<mapsto> ''sng''] = Inr ''cat''"
    using t1 by simp
  moreover have "EnglishNounMorpher_morph EnglishNounMorpher_init ''cat'' [''COUNT'' \<mapsto> ''plu'']
      = Inr ''cats''"
    using t2 by simp
  moreover have "JapaneseVerbMorpher_morph JapaneseVerbMorpher_init ''tabe''
      [''PERSON'' \<mapsto> ''1'', ''COUNT'' \<mapsto> ''plu'', ''TENSE'' \<mapsto> ''present''] = Inr ''tabemasu''"
    using t3 by simp
  moreover have "JapaneseVerbMorpher_morph JapaneseVerbMorpher_init ''tabe''
      [''PERSON'' \<mapsto> ''3'', ''COUNT'' \<mapsto> ''sng'', ''TENSE'' \<mapsto> ''perfect''] = Inr ''tabemashita''"
    using t4 by simp
  ultimately show ?thesis by simp
qed

text \<open>
  Claim C6. When \<^verbatim>\<open>PERSON\<close> is 1 or 3, \<^verbatim>\<open>COUNT\<close> is \<^verbatim>\<open>sng\<close> or \<^verbatim>\<open>plu\<close>,
  \<^verbatim>\<open>TENSE\<close> is \<^verbatim>\<open>present\<close> or \<^verbatim>\<open>perfect\<close> and \<^verbatim>\<open>POLARITY\<close> is \<^verbatim>\<open>pos\<close> or
  \<^verbatim>\<open>neg\<close>, the projected tuple is a key of the suffix table and of the prefix table of
  the English verb morpher, and \<open>morph\<close> returns a string: neither subscript raises.
\<close>

theorem english_verb_total_on_domain:
  assumes "p ''PERSON'' = Some a" and "a = ''1'' \<or> a = ''3''"
    and "p ''COUNT'' = Some b" and "b = ''sng'' \<or> b = ''plu''"
    and "p ''TENSE'' = Some c" and "c = ''present'' \<or> c = ''perfect''"
    and "p ''POLARITY'' = Some d" and "d = ''pos'' \<or> d = ''neg''"
  shows "project [''PERSON'', ''COUNT'', ''TENSE'', ''POLARITY''] p = Inr [a, b, c, d]
    \<and> suffix_map (EnglishVerbMorpher.base_morpher EnglishVerbMorpher_init) [a, b, c, d] \<noteq> None
    \<and> prefix_map (negation_morpher EnglishVerbMorpher_init) [a, b, c, d] \<noteq> None
    \<and> (\<exists>r. EnglishVerbMorpher_morph EnglishVerbMorpher_init stem p = Inr r)"
proof -
  have proj: "project [''PERSON'', ''COUNT'', ''TENSE'', ''POLARITY''] p = Inr [a, b, c, d]"
    using assms(1,3,5,7) by (rule project4)
  have "\<exists>sfx. suffix_map (EnglishVerbMorpher.base_morpher EnglishVerbMorpher_init) [a, b, c, d]
      = Some sfx"
    using assms(2,4,6,8) by (elim disjE) (simp_all only: english_verb_suffix_table, blast+)
  then obtain sfx where sfx:
    "suffix_map (EnglishVerbMorpher.base_morpher EnglishVerbMorpher_init) [a, b, c, d] = Some sfx" ..
  have "\<exists>pfx. prefix_map (negation_morpher EnglishVerbMorpher_init) [a, b, c, d] = Some pfx"
    using assms(2,4,6,8) by (elim disjE) (simp_all only: english_verb_prefix_table, blast+)
  then obtain pfx where pfx:
    "prefix_map (negation_morpher EnglishVerbMorpher_init) [a, b, c, d] = Some pfx" ..
  have s: "SuffixMorpher_morph (EnglishVerbMorpher.base_morpher EnglishVerbMorpher_init) stem p
      = Inr (stem @ sfx)"
    using proj sfx
    by (intro SuffixMorpher_morph_Inr [where val = "[a, b, c, d]"]) (simp_all only: english_verb_names)
  have "PrefixMorpher_morph (negation_morpher EnglishVerbMorpher_init) (stem @ sfx) p
      = Inr (pfx @ stem @ sfx)"
    using proj pfx
    by (intro PrefixMorpher_morph_Inr [where val = "[a, b, c, d]"]) (simp_all only: english_verb_names)
  with s have "EnglishVerbMorpher_morph EnglishVerbMorpher_init stem p = Inr (pfx @ stem @ sfx)"
    by (simp add: EnglishVerbMorpher_morph_def)
  with proj sfx pfx show ?thesis by simp
qed

text \<open>First person plural perfect positive of "walk".\<close>

theorem english_verb_total_on_domain_witness:
  "project [''PERSON'', ''COUNT'', ''TENSE'', ''POLARITY'']
     [''PERSON'' \<mapsto> ''1'', ''COUNT'' \<mapsto> ''plu'', ''TENSE'' \<mapsto> ''perfect'', ''POLARITY'' \<mapsto> ''pos'']
     = Inr [''1'', ''plu'', ''perfect'', ''pos'']
   \<and> suffix_map (EnglishVerbMorpher.base_morpher EnglishVerbMorpher_init)
        [''1'', ''plu'', ''perfect'', ''pos''] \<noteq> None
   \<and> prefix_map (negation_morpher EnglishVerbMorpher_init)
        [''1'', ''plu'', ''perfect'', ''pos''] \<noteq> None
   \<and> (\<exists>r. EnglishVerbMorpher_morph EnglishVerbMorpher_init ''walk''
        [''PERSON'' \<mapsto> ''1'', ''COUNT'' \<mapsto> ''plu'', ''TENSE'' \<mapsto> ''perfect'', ''POLARITY'' \<mapsto> ''pos'']
        = Inr r)"
  by (rule english_verb_total_on_domain
      [where a = "''1''" and b = "''plu''" and c = "''perfect''" and d = "''pos''"]) simp_all

text \<open>
  Claim C7. \<open>morph\<close> is a function of the morpher, the stem and the values the bundle
  gives to the names of the morpher's property-name list: two bundles that agree on those
  names (a name absent from both counts as agreement) give the same outcome, whatever
  else they hold. This holds for the suffix morpher, for the prefix morpher and for the
  English verb morpher built from them. The methods assign to no attribute, so the model
  has no morpher state to return and equal arguments give equal outcomes.
\<close>

theorem morph_reads_only_property_names:
  "((\<forall>n \<in> set (SuffixMorpher.property_names sm). p n = q n)
      \<longrightarrow> SuffixMorpher_morph sm stem p = SuffixMorpher_morph sm stem q)
   \<and> ((\<forall>n \<in> set (PrefixMorpher.property_names pm). p n = q n)
      \<longrightarrow> PrefixMorpher_morph pm stem p = PrefixMorpher_morph pm stem q)
   \<and> ((\<forall>n \<in> set (SuffixMorpher.property_names (EnglishVerbMorpher.base_morpher ev))
             \<union> set (PrefixMorpher.property_names (negation_morpher ev)). p n = q n)
      \<longrightarrow> EnglishVerbMorpher_morph ev stem p = EnglishVerbMorpher_morph ev stem q)"
proof (intro conjI impI)
  assume "\<forall>n \<in> set (SuffixMorpher.property_names sm). p n = q n"
  then show "SuffixMorpher_morph sm stem p = SuffixMorpher_morph sm stem q"
    by (rule SuffixMorpher_morph_cong)
next
  assume "\<forall>n \<in> set (PrefixMorpher.property_names pm). p n = q n"
  then show "PrefixMorpher_morph pm stem p = PrefixMorpher_morph pm stem q"
    by (rule PrefixMorpher_morph_cong)
next
  assume h: "\<forall>n \<in> set (SuffixMorpher.property_names (EnglishVerbMorpher.base_morpher ev))
             \<union> set (PrefixMorpher.property_names (negation_morpher ev)). p n = q n"
  then have "\<forall>n \<in> set (SuffixMorpher.property_names (EnglishVerbMorpher.base_morpher ev)).
      p n = q n"
    by blast
  then have s: "SuffixMorpher_morph (EnglishVerbMorpher.base_morpher ev) stem p
      = SuffixMorpher_morph (EnglishVerbMorpher.base_morpher ev) stem q"
    by (rule SuffixMorpher_morph_cong)
  from h have "\<forall>n \<in> set (PrefixMorpher.property_names (negation_morpher ev)). p n = q n"
    by blast
  then have pw: "PrefixMorpher_morph (negation_morpher ev) w p
      = PrefixMorpher_morph (negation_morpher ev) w q" for w
    by (rule PrefixMorpher_morph_cong)
  show "EnglishVerbMorpher_morph ev stem p = EnglishVerbMorpher_morph ev stem q"
    by (simp only: EnglishVerbMorpher_morph_def s pw)
qed

text \<open>
  A bundle for the English verb and the same bundle with a \<^verbatim>\<open>GENDER\<close> and another
  \<^verbatim>\<open>COUNT\<close>: the verb morpher reads all four of its names, on which the first two
  bundles agree; the third bundle differs on \<^verbatim>\<open>COUNT\<close> and the outcome differs too.
\<close>

theorem morph_reads_only_property_names_witness:
  "EnglishVerbMorpher_morph EnglishVerbMorpher_init ''walk''
     [''PERSON'' \<mapsto> ''3'', ''COUNT'' \<mapsto> ''sng'', ''TENSE'' \<mapsto> ''present'', ''POLARITY'' \<mapsto> ''pos'']
   = EnglishVerbMorpher_morph EnglishVerbMorpher_init ''walk''
     [''PERSON'' \<mapsto> ''3'', ''COUNT'' \<mapsto> ''sng'', ''TENSE'' \<mapsto> ''present'', ''POLARITY'' \<mapsto> ''pos'',
      ''GENDER'' \<mapsto> ''f'']
   \<and> SuffixMorpher_morph (EnglishNounMorpher.base_morpher EnglishNounMorpher_init) ''cat''
     [''PERSON'' \<mapsto> ''3'', ''COUNT'' \<mapsto> ''sng'', ''TENSE'' \<mapsto> ''present'', ''POLARITY'' \<mapsto> ''pos'']
   = SuffixMorpher_morph (EnglishNounMorpher.base_morpher EnglishNounMorpher_init) ''cat''
     [''PERSON'' \<mapsto> ''3'', ''COUNT'' \<mapsto> ''sng'', ''TENSE'' \<mapsto> ''present'', ''POLARITY'' \<mapsto> ''pos'',
      ''GENDER'' \<mapsto> ''f'']
   \<and> PrefixMorpher_morph (negation_morpher EnglishVerbMorpher_init) ''walk''
     [''PERSON'' \<mapsto> ''3'', ''COUNT'' \<mapsto> ''sng'', ''TENSE'' \<mapsto> ''present'', ''POLARITY'' \<mapsto> ''pos'']
   = PrefixMorpher_morph (negation_morpher EnglishVerbMorpher_init) ''walk''
     [''PERSON'' \<mapsto> ''3'', ''COUNT'' \<mapsto> ''sng'', ''TENSE'' \<mapsto> ''present'', ''POLARITY'' \<mapsto> ''pos'',
      ''GENDER'' \<mapsto> ''f'']
   \<and> EnglishVerbMorpher_morph EnglishVerbMorpher_init ''walk''
     [''PERSON'' \<mapsto> ''3'', ''COUNT'' \<mapsto> ''sng'', ''TENSE'' \<mapsto> ''present'', ''POLARITY'' \<mapsto> ''pos'']
   \<noteq> EnglishVerbMorpher_morph EnglishVerbMorpher_init ''walk''
     [''PERSON'' \<mapsto> ''3'', ''COUNT'' \<mapsto> ''plu'', ''TENSE'' \<mapsto> ''present'', ''POLARITY'' \<mapsto> ''pos'']"
proof -
  let ?p = "[''PERSON'' \<mapsto> ''3'', ''COUNT'' \<mapsto> ''sng'', ''TENSE'' \<mapsto> ''present'',
             ''POLARITY'' \<mapsto> ''pos'']"
  let ?q = "[''PERSON'' \<mapsto> ''3'', ''COUNT'' \<mapsto> ''sng'', ''TENSE'' \<mapsto> ''present'',
             ''POLARITY'' \<mapsto> ''pos'', ''GENDER'' \<mapsto> ''f'']"
  let ?r = "[''PERSON'' \<mapsto> ''3'', ''COUNT'' \<mapsto> ''plu'', ''TENSE'' \<mapsto> ''present'',
             ''POLARITY'' \<mapsto> ''pos'']"
  have h1: "\<forall>n \<in> set (SuffixMorpher.property_names
        (EnglishNounMorpher.base_morpher EnglishNounMorpher_init)). ?p n = ?q n"
    by (simp add: noun_names)
  have h2: "\<forall>n \<in> set (PrefixMorpher.property_names (negation_morpher EnglishVerbMorpher_init)).
        ?p n = ?q n"
    by (simp add: english_verb_names)
  have h3: "\<forall>n \<in> set (SuffixMorpher.property_names
          (EnglishVerbMorpher.base_morpher EnglishVerbMorpher_init))
        \<union> set (PrefixMorpher.property_names (negation_morpher EnglishVerbMorpher_init)).
        ?p n = ?q n"
    by (simp add: english_verb_names)
  note t = morph_reads_only_property_names
    [where p = ?p and q = ?q and sm = "EnglishNounMorpher.base_morpher EnglishNounMorpher_init"
       and pm = "negation_morpher EnglishVerbMorpher_init" and ev = EnglishVerbMorpher_init]
  note t1 = t [where stem = "''cat''", THEN conjunct1, THEN mp, OF h1]
  note t2 = t [where stem = "''walk''", THEN conjunct2, THEN conjunct1, THEN mp, OF h2]
  note t3 = t [where stem = "''walk''", THEN conjunct2, THEN conjunct2, THEN mp, OF h3]
  have d: "EnglishVerbMorpher_morph EnglishVerbMorpher_init ''walk'' ?p
      \<noteq> EnglishVerbMorpher_morph EnglishVerbMorpher_init ''walk'' ?r"
    by (simp add: EnglishVerbMorpher_morph_def EnglishVerbMorpher_init_def
        SuffixMorpher_morph_def PrefixMorpher_morph_def getitem_map_def)
  from t1 t2 t3 d show ?thesis by (intro conjI)
qed

text \<open>
  Claim C8, as the description of the error handling states it: the failure for an
  absent property name and the failure for an uncovered tuple are two distinct kinds of
  error. On the code both are the \<^verbatim>\<open>KeyError\<close> of a dictionary subscript: the noun
  morpher asked without a \<^verbatim>\<open>COUNT\<close> and asked for the uncovered count \<^verbatim>\<open>dual\<close> ends
  with an exception of the same class.
\<close>

theorem missing_and_unknown_same_class_counterexample:
  "(Map.empty :: properties) ''COUNT'' = None
   \<and> raised_class (SuffixMorpher_morph (EnglishNounMorpher.base_morpher EnglishNounMorpher_init)
        ''cat'' Map.empty) = Some KeyError
   \<and> project (SuffixMorpher.property_names (EnglishNounMorpher.base_morpher EnglishNounMorpher_init))
        [''COUNT'' \<mapsto> ''dual''] = Inr [''dual'']
   \<and> suffix_map (EnglishNounMorpher.base_morpher EnglishNounMorpher_init) [''dual''] = None
   \<and> raised_class (SuffixMorpher_morph (EnglishNounMorpher.base_morpher EnglishNounMorpher_init)
        ''cat'' [''COUNT'' \<mapsto> ''dual'']) = Some KeyError
   \<and> \<not> (raised_class (SuffixMorpher_morph (EnglishNounMorpher.base_morpher EnglishNounMorpher_init)
            ''cat'' Map.empty)
        \<noteq> raised_class (SuffixMorpher_morph (EnglishNounMorpher.base_morpher EnglishNounMorpher_init)
            ''cat'' [''COUNT'' \<mapsto> ''dual'']))"
  by (simp add: SuffixMorpher_morph_def EnglishNounMorpher_init_def getitem_map_def)

text \<open>
  Claim C8, amended. Both failures are raised as the same class of exception,
  \<^verbatim>\<open>KeyError\<close>. They differ only in the key the exception carries: the first absent
  property name, a string, when a name is missing, and the projected tuple of values
  when the rule table does not cover it. The first absent name is the name \<open>n\<close> of the
  property-name list such that the bundle holds every name listed before \<open>n\<close> and does
  not hold \<open>n\<close>; whatever follows \<open>n\<close> in the list is not read.
\<close>

theorem missing_and_unknown_both_KeyError:
  "(SuffixMorpher.property_names sm = seen @ n # rest
      \<and> (\<forall>m \<in> set seen. p m \<noteq> None) \<and> p n = None
      \<longrightarrow> SuffixMorpher_morph sm stem p = Inl (Raise KeyError (StrArg n)))
   \<and> (project (SuffixMorpher.property_names sm) p = Inr val \<and> suffix_map sm val = None
      \<longrightarrow> SuffixMorpher_morph sm stem p = Inl (Raise KeyError (TupleArg val)))
   \<and> (PrefixMorpher.property_names pm = seen' @ n' # rest'
      \<and> (\<forall>m \<in> set seen'. p m \<noteq> None) \<and> p n' = None
      \<longrightarrow> PrefixMorpher_morph pm stem p = Inl (Raise KeyError (StrArg n')))
   \<and> (project (PrefixMorpher.property_names pm) p = Inr val' \<and> prefix_map pm val' = None
      \<longrightarrow> PrefixMorpher_morph pm stem p = Inl (Raise KeyError (TupleArg val')))"
proof (intro conjI impI)
  assume "SuffixMorpher.property_names sm = seen @ n # rest
      \<and> (\<forall>m \<in> set seen. p m \<noteq> None) \<and> p n = None"
  then show "SuffixMorpher_morph sm stem p = Inl (Raise KeyError (StrArg n))"
    by (simp add: SuffixMorpher_morph_first_missing)
next
  assume "project (SuffixMorpher.property_names sm) p = Inr val \<and> suffix_map sm val = None"
  then show "SuffixMorpher_morph sm stem p = Inl (Raise KeyError (TupleArg val))"
    by (simp add: SuffixMorpher_morph_unknown)
next
  assume "PrefixMorpher.property_names pm = seen' @ n' # rest'
      \<and> (\<forall>m \<in> set seen'. p m \<noteq> None) \<and> p n' = None"
  then show "PrefixMorpher_morph pm stem p = Inl (Raise KeyError (StrArg n'))"
    by (simp add: PrefixMorpher_morph_first_missing)
next
  assume "project (PrefixMorpher.property_names pm) p = Inr val' \<and> prefix_map pm val' = None"
  then show "PrefixMorpher_morph pm stem p = Inl (Raise KeyError (TupleArg val'))"
    by (simp add: PrefixMorpher_morph_unknown)
qed

text \<open>
  The English verb asked with a \<^verbatim>\<open>PERSON\<close> and a \<^verbatim>\<open>TENSE\<close> only: \<^verbatim>\<open>COUNT\<close> and
  \<^verbatim>\<open>POLARITY\<close> are both absent and the key of the \<^verbatim>\<open>KeyError\<close> is \<^verbatim>\<open>COUNT\<close>, the
  first of the two in the property-name list. Asked for a second person, the key is the
  projected tuple.
\<close>

theorem missing_and_unknown_both_KeyError_witness:
  "[''PERSON'' \<mapsto> ''3'', ''TENSE'' \<mapsto> ''present''] ''PERSON'' \<noteq> None
   \<and> [''PERSON'' \<mapsto> ''3'', ''TENSE'' \<mapsto> ''present''] ''COUNT'' = None
   \<and> [''PERSON'' \<mapsto> ''3'', ''TENSE'' \<mapsto> ''present''] ''POLARITY'' = None
   \<and> SuffixMorpher_morph (EnglishVerbMorpher.base_morpher EnglishVerbMorpher_init) ''walk''
        [''PERSON'' \<mapsto> ''3'', ''TENSE'' \<mapsto> ''present'']
      = Inl (Raise KeyError (StrArg ''COUNT''))
   \<and> PrefixMorpher_morph (negation_morpher EnglishVerbMorpher_init) ''walk''
        [''PERSON'' \<mapsto> ''3'', ''TENSE'' \<mapsto> ''present'']
      = Inl (Raise KeyError (StrArg ''COUNT''))
   \<and> suffix_map (EnglishVerbMorpher.base_morpher EnglishVerbMorpher_init)
        [''2'', ''sng'', ''present'', ''neg''] = None
   \<and> SuffixMorpher_morph (EnglishVerbMorpher.base_morpher EnglishVerbMorpher_init) ''walk''
        [''PERSON'' \<mapsto> ''2'', ''COUNT'' \<mapsto> ''sng'', ''TENSE'' \<mapsto> ''present'', ''POLARITY'' \<mapsto> ''neg'']
      = Inl (Raise KeyError (TupleArg [''2'', ''sng'', ''present'', ''neg'']))
   \<and> prefix_map (negation_morpher EnglishVerbMorpher_init)
        [''2'', ''sng'', ''present'', ''neg''] = None
   \<and> PrefixMorpher_morph (negation_morpher EnglishVerbMorpher_init) ''walk''
        [''PERSON'' \<mapsto> ''2'', ''COUNT'' \<mapsto> ''sng'', ''TENSE'' \<mapsto> ''present'', ''POLARITY'' \<mapsto> ''neg'']
      = Inl (Raise KeyError (TupleArg [''2'', ''sng'', ''present'', ''neg'']))"
proof -
  let ?p = "[''PERSON'' \<mapsto> ''3'', ''TENSE'' \<mapsto> ''present'']"
  let ?q = "[''PERSON'' \<mapsto> ''2'', ''COUNT'' \<mapsto> ''sng'', ''TENSE'' \<mapsto> ''present'',
             ''POLARITY'' \<mapsto> ''neg'']"
  let ?v = "[''2'', ''sng'', ''present'', ''neg'']"
  have a: "?p ''PERSON'' \<noteq> None \<and> ?p ''COUNT'' = None \<and> ?p ''POLARITY'' = None"
    by simp
  have m1: "SuffixMorpher.property_names (EnglishVerbMorpher.base_morpher EnglishVerbMorpher_init)
        = [''PERSON''] @ ''COUNT'' # [''TENSE'', ''POLARITY'']
      \<and> (\<forall>m \<in> set [''PERSON'']. ?p m \<noteq> None) \<and> ?p ''COUNT'' = None"
    by (simp add: english_verb_names)
  have m2: "PrefixMorpher.property_names (negation_morpher EnglishVerbMorpher_init)
        = [''PERSON''] @ ''COUNT'' # [''TENSE'', ''POLARITY'']
      \<and> (\<forall>m \<in> set [''PERSON'']. ?p m \<noteq> None) \<and> ?p ''COUNT'' = None"
    by (simp add: english_verb_names)
  have u1: "project (SuffixMorpher.property_names
        (EnglishVerbMorpher.base_morpher EnglishVerbMorpher_init)) ?q = Inr ?v
      \<and> suffix_map (EnglishVerbMorpher.base_morpher EnglishVerbMorpher_init) ?v = None"
    by (simp add: english_verb_names) (simp add: EnglishVerbMorpher_init_def)
  have u2: "project (PrefixMorpher.property_names (negation_morpher EnglishVerbMorpher_init)) ?q
        = Inr ?v
      \<and> prefix_map (negation_morpher EnglishVerbMorpher_init) ?v = None"
    by (simp add: english_verb_names) (simp add: EnglishVerbMorpher_init_def)
  note t = missing_and_unknown_both_KeyError
    [where sm = "EnglishVerbMorpher.base_morpher EnglishVerbMorpher_init"
       and pm = "negation_morpher EnglishVerbMorpher_init" and stem = "''walk''"]
  note t1 = t [where p = ?p and seen = "[''PERSON'']" and n = "''COUNT''"
       and rest = "[''TENSE'', ''POLARITY'']", THEN conjunct1, THEN mp, OF m1]
  note t2 = t [where p = ?q and val = ?v, THEN conjunct2, THEN conjunct1, THEN mp, OF u1]
  note t3 = t [where p = ?p and seen' = "[''PERSON'']" and n' = "''COUNT''"
       and rest' = "[''TENSE'', ''POLARITY'']",
       THEN conjunct2, THEN conjunct2, THEN conjunct1, THEN mp, OF m2]
  note t4 = t [where p = ?q and val' = ?v, THEN conjunct2, THEN conjunct2, THEN conjunct2,
               THEN mp, OF u2]
  from a t1 t3 t2 t4 u1 u2 show ?thesis by (intro conjI) blast+
qed

section \<open>The claims about the n-gram stream and the base class\<close>

text \<open>
  Claim C9. For an n-gram order \<open>n \<ge> 0\<close>, \<open>stream_ngrams\<close> replaces every token
  that \<^verbatim>\<open>float\<close> parses by the one token \<^verbatim>\<open>*NUM*\<close> and yields, line after line and
  from left to right, the consecutive windows of \<open>n\<close> tokens of the line, each joined by
  single spaces: \<open>w - n + 1\<close> of them for a line of \<open>w \<ge> n\<close> tokens and none for a
  shorter line. The window at position \<open>i\<close> holds exactly the \<open>n\<close> tokens from
  position \<open>i\<close> on.
\<close>

theorem stream_ngrams_yields_windows:
  assumes "0 \<le> n"
  shows "stream_ngrams pf lines n tok =
           concat (map (\<lambda>line. map join_space (ngram_windows (nat n)
              (map (\<lambda>w. if pf w \<noteq> None then ''*NUM*'' else w) (tok line)))) lines)
    \<and> length (line_ngrams pf n ws) = (if nat n \<le> length ws then length ws - nat n + 1 else 0)
    \<and> (\<forall>i < length (ngram_windows (nat n) ws).
          ngram_windows (nat n) ws ! i = take (nat n) (drop i ws)
          \<and> length (ngram_windows (nat n) ws ! i) = nat n)"
proof (intro conjI allI impI)
  have r: "replace_numbers pf = (\<lambda>w. if pf w \<noteq> None then ''*NUM*'' else w)"
    by (auto simp: replace_numbers_def is_number_def fun_eq_iff split: option.splits)
  show "stream_ngrams pf lines n tok =
           concat (map (\<lambda>line. map join_space (ngram_windows (nat n)
              (map (\<lambda>w. if pf w \<noteq> None then ''*NUM*'' else w) (tok line)))) lines)"
    using assms by (simp add: stream_ngrams_def line_ngrams_windows r)
  show "length (line_ngrams pf n ws) = (if nat n \<le> length ws then length ws - nat n + 1 else 0)"
    using assms by (simp add: line_ngrams_windows length_ngram_windows)
next
  fix i assume "i < length (ngram_windows (nat n) ws)"
  then have w: "ngram_windows (nat n) ws ! i = take (nat n) (drop i ws)
      \<and> length (ngram_windows (nat n) ws ! i) = nat n"
    by (rule nth_ngram_windows)
  from w show "ngram_windows (nat n) ws ! i = take (nat n) (drop i ws)" ..
  from w show "length (ngram_windows (nat n) ws ! i) = nat n" ..
qed

text \<open>
  The bigrams of two lines under the default tokenizer; of the tokens that occur, \<^verbatim>\<open>float\<close>
  parses "1" only. The second line has one token and yields nothing.
\<close>

theorem stream_ngrams_yields_windows_witness:
  "(0 :: int) \<le> 2
   \<and> stream_ngrams (\<lambda>s. if s = ''1'' then Some (1 :: int) else None)
        [''a 1  b c'', ''d''] 2 str_split
      = [''a *NUM*'', ''*NUM* b'', ''b c'']
   \<and> length (line_ngrams (\<lambda>s. if s = ''1'' then Some (1 :: int) else None) 2
        [''a'', ''1'', ''b'', ''c'']) = 3
   \<and> length (line_ngrams (\<lambda>s. if s = ''1'' then Some (1 :: int) else None) 2 [''d'']) = 0
   \<and> (1 :: nat) < length (ngram_windows (nat 2) [''a'', ''1'', ''b'', ''c''])
   \<and> ngram_windows (nat 2) [''a'', ''1'', ''b'', ''c''] ! 1 = [''1'', ''b'']"
proof -
  let ?pf = "\<lambda>s. if s = ''1'' then Some (1 :: int) else None"
  have h: "(0 :: int) \<le> 2" by simp
  note t = stream_ngrams_yields_windows [OF h, where pf = ?pf]
  note t1 = t [where lines = "[''a 1  b c'', ''d'']" and tok = str_split, THEN conjunct1]
  note t2 = t [where ws = "[''a'', ''1'', ''b'', ''c'']", THEN conjunct2, THEN conjunct1]
  note t3 = t [where ws = "[''d'']", THEN conjunct2, THEN conjunct1]
  note t4 = t [where ws = "[''a'', ''1'', ''b'', ''c'']", THEN conjunct2, THEN conjunct2,
               THEN spec, THEN mp]
  have tk: "str_split ''a 1  b c'' = [''a'', ''1'', ''b'', ''c''] \<and> str_split ''d'' = [''d'']"
    by (simp add: str_split_def is_space_def)
  have l: "(1 :: nat) < length (ngram_windows (nat 2) [''a'', ''1'', ''b'', ''c''])"
    by (simp add: length_ngram_windows)
  have "stream_ngrams ?pf [''a 1  b c'', ''d''] 2 str_split = [''a *NUM*'', ''*NUM* b'', ''b c'']"
    using t1 by (simp add: tk ngram_windows_def upt_rec)
  moreover have "length (line_ngrams ?pf 2 [''a'', ''1'', ''b'', ''c'']) = 3"
    using t2 by simp
  moreover have "length (line_ngrams ?pf 2 [''d'']) = 0"
    using t3 by simp
  moreover have "ngram_windows (nat 2) [''a'', ''1'', ''b'', ''c''] ! 1 = [''1'', ''b'']"
    using t4 [OF l] by simp
  ultimately show ?thesis using l by simp
qed

text \<open>
  An order below zero is no n-gram order and the description of the stream does not cover it: the
  slices then count from the end of the line.
\<close>

lemma stream_ngrams_negative_order:
  "stream_ngrams (\<lambda>s. if s = ''1'' then Some (1 :: int) else None) [''a 1 b''] (- 1) str_split
   = [''a *NUM*'', [], [], [], []]"
  by (simp add: stream_ngrams_def line_ngrams_def str_split_def is_space_def replace_numbers_def
      is_number_def pyrange0_def pyslice_def Let_def upt_rec)

text \<open>
  Claim C10. The class \<^verbatim>\<open>Morpher\<close> derives from \<^verbatim>\<open>ABC\<close> but declares no abstract
  method, \<^verbatim>\<open>morph\<close> not being decorated, so it can be instantiated; and for every stem
  and property bundle the base \<^verbatim>\<open>morph\<close> returns \<^verbatim>\<open>None\<close>, which is not a string, and
  raises nothing.
\<close>

theorem base_Morpher_instantiable_and_morph_is_None:
  "instantiate Morpher_decl = Inr ''Morpher''
   \<and> Morpher_morph word properties = PyNone
   \<and> (\<forall>s. Morpher_morph word properties \<noteq> PyStr s)"
  by (simp add: instantiate_def abstractmethods_def Morpher_decl_def Morpher_morph_def)

text \<open>
  Had \<^verbatim>\<open>morph\<close> carried the decorator, the instantiation would have raised
  \<^verbatim>\<open>TypeError\<close>.
\<close>

lemma decorated_Morpher_not_instantiable:
  "instantiate (Morpher_decl\<lparr>decl_methods := [(''morph'', True)]\<rparr>)
   = Inl (Raise TypeError (TupleArg [''morph'']))"
  by (simp add: instantiate_def abstractmethods_def Morpher_decl_def)

end
